theory Spec2Isabelle
  imports Complex_Main "HOL-Library.Sublist"
begin

section \<open>CLI Buddy: splash presenter and command dispatcher\<close>

text \<open>
  The program is \<^verbatim>\<open>src/main.py\<close>: a splash presenter \<^verbatim>\<open>show_splash_window\<close>, a
  subcommand \<^verbatim>\<open>info\<close> and the Typer callback \<^verbatim>\<open>main\<close>. Everything it does is a call
  to one of three collaborators: \<^verbatim>\<open>console.clear()\<close>, \<^verbatim>\<open>console.print(x)\<close> and
  \<^verbatim>\<open>time.sleep(d)\<close>. The model passes the collaborators in as a record of operations on
  an arbitrary world, each of which may raise; the program's functions thread the world
  through them in the order of the source's statements.
\<close>

subsection \<open>The values handed to the console\<close>

type_synonym style = string

text \<open>
  A \<^verbatim>\<open>rich.text.Text\<close> is built by \<^verbatim>\<open>Text()\<close> and \<^verbatim>\<open>append(text, style=...)\<close>: the
  appended pieces in order, each with its style.
\<close>

type_synonym Text = "(string \<times> style) list"

definition Text_new :: Text where
  "Text_new = []"

definition append_text :: "Text \<Rightarrow> string \<Rightarrow> style \<Rightarrow> Text" where
  "append_text t s st = t @ [(s, st)]"

text \<open>\<^verbatim>\<open>Panel(renderable, border_style=..., padding=..., subtitle=...)\<close>: a bordered box.\<close>

record Panel =
  panel_renderable :: Text
  border_style :: style
  padding :: "nat \<times> nat"
  subtitle :: string

text \<open>
  \<^verbatim>\<open>Align.center(renderable, vertical=...)\<close> is \<^verbatim>\<open>Align(renderable, "center", vertical=...)\<close>.
  An \<^verbatim>\<open>Align\<close> also has a \<^verbatim>\<open>height\<close>, \<open>None\<close> unless the caller gives one; the source
  gives none.
\<close>

record Align =
  align_renderable :: Panel
  align :: string
  vertical :: "string option"
  align_height :: "nat option"

definition Align_center :: "Panel \<Rightarrow> string option \<Rightarrow> Align" where
  "Align_center r v =
     \<lparr>align_renderable = r, align = ''center'', vertical = v, align_height = None\<rparr>"

text \<open>
  How Rich places an \<^verbatim>\<open>Align\<close> vertically (\<^verbatim>\<open>Align.__rich_console__\<close>, a library
  function, not part of \<^verbatim>\<open>src/\<close>): the number of blank lines it puts above a
  renderable that is \<open>h\<close> lines high. The vertical setting counts only when a height is
  known, \<^verbatim>\<open>self.height or options.height\<close>: the \<^verbatim>\<open>Align\<close>'s own or the one given to
  \<^verbatim>\<open>console.print(..., height=...)\<close>. Without one the renderable is printed where the
  cursor is.
\<close>

definition top_space :: "Align \<Rightarrow> nat option \<Rightarrow> nat \<Rightarrow> nat" where
  "top_space a options_height h =
     (let vertical_height =
            (case align_height a of
               None \<Rightarrow> options_height
             | Some n \<Rightarrow> if n = 0 then options_height else Some n)
      in case (vertical a, vertical_height) of
           (Some v, Some vh) \<Rightarrow>
             if v = ''middle'' then (vh - h) div 2
             else if v = ''bottom'' then vh - h
             else 0
         | _ \<Rightarrow> 0)"

text \<open>\<^verbatim>\<open>console.print\<close> is called with an aligned panel or with a string of console markup.\<close>

datatype renderable = Aligned Align | Markup string

subsection \<open>Collaborators, exceptions and statement sequencing\<close>

text \<open>An exception raised by a collaborator, by the name of its class.\<close>

datatype exn = Exn string

type_synonym 'w io = "'w \<Rightarrow> exn + 'w"

record 'w collab =
  console_clear :: "'w io"
  console_print :: "renderable \<Rightarrow> 'w io"
  time_sleep :: "real \<Rightarrow> 'w io"

text \<open>
  A block of statements runs them in order; the first exception ends the block and
  propagates (the source has no \<^verbatim>\<open>try\<close>).
\<close>

fun block :: "'w io list \<Rightarrow> 'w io" where
  "block [] w = Inr w"
| "block (s # ss) w = (case s w of Inl e \<Rightarrow> Inl e | Inr w' \<Rightarrow> block ss w')"

subsection \<open>The splash presenter\<close>

text \<open>The locals of \<^verbatim>\<open>show_splash_window\<close>; none depends on the argument or the world.\<close>

definition splash_title :: Text where
  "splash_title =
     append_text
       (append_text Text_new ''\<newline> CLI Buddy v0.1.0'' ''bold white'')
       ''\<newline> Author <Iurii Golubnichenko aka Ghost Rider>'' ''dim white''"

definition panel :: Panel where
  "panel = \<lparr>panel_renderable = splash_title,
             border_style = ''bright_blue'',
             padding = (1, 4),
             subtitle = ''[dim]Loading ... [/dim]''\<rparr>"

definition centered :: Align where
  "centered = Align_center panel (Some ''middle'')"

text \<open>
  \<^verbatim>\<open>def show_splash_window(duration: float = 2.0)\<close>: the argument is optional, \<open>None\<close>
  is the call \<^verbatim>\<open>show_splash_window()\<close>. The duration is handed to \<^verbatim>\<open>time.sleep\<close> as
  it is.
\<close>

definition show_splash_window :: "'w collab \<Rightarrow> real option \<Rightarrow> 'w io" where
  "show_splash_window K duration_arg =
     (let duration = (case duration_arg of None \<Rightarrow> 2.0 | Some d \<Rightarrow> d) in
      block [console_clear K,
             console_print K (Aligned centered),
             time_sleep K duration,
             console_clear K])"

subsection \<open>The subcommand and the callback\<close>

definition info :: "'w collab \<Rightarrow> 'w io" where
  "info K = block [console_print K (Markup ''[bold] Info command [/bold]'')]"

text \<open>The field of \<^verbatim>\<open>typer.Context\<close> that the callback reads.\<close>

record Context =
  invoked_subcommand :: "string option"

definition main :: "'w collab \<Rightarrow> Context \<Rightarrow> bool \<Rightarrow> 'w io" where
  "main K ctx no_splash =
     (if invoked_subcommand ctx = None \<or> \<not> no_splash
      then show_splash_window K None
      else block [])"

subsection \<open>The entry point\<close>

text \<open>
  \<^verbatim>\<open>cli_app = typer.Typer()\<close> has one registered command, \<^verbatim>\<open>info\<close>, and the callback
  \<^verbatim>\<open>main\<close> registered with \<^verbatim>\<open>invoke_without_command=True\<close>. An invocation is what the
  argument parser hands over once it has accepted the argument vector: the subcommand
  named, if any, and whether \<^verbatim>\<open>--no-splash\<close> was given (default \<open>False\<close>). The run
  from the tokens themselves, with the vectors Typer rejects part-way, is
  \<open>cli_app_argv\<close> below.
\<close>

datatype command = Info

fun command_name :: "command \<Rightarrow> string" where
  "command_name Info = ''info''"

fun handler :: "'w collab \<Rightarrow> command \<Rightarrow> 'w io" where
  "handler K Info = info K"

record invocation =
  subcommand :: "command option"
  no_splash_flag :: bool

text \<open>
  \<^verbatim>\<open>cli_app()\<close> on an argument vector that Typer accepts as a whole: the callback runs
  first, with \<^verbatim>\<open>ctx.invoked_subcommand\<close> the name of the subcommand or \<open>None\<close>; then the
  subcommand's handler, if one was named.
\<close>

definition cli_app :: "'w collab \<Rightarrow> invocation \<Rightarrow> 'w io" where
  "cli_app K call =
     block [main K \<lparr>invoked_subcommand = map_option command_name (subcommand call)\<rparr>
                   (no_splash_flag call),
            (case subcommand call of None \<Rightarrow> block [] | Some c \<Rightarrow> handler K c)]"

text \<open>
  The process's exit status: 0 when \<^verbatim>\<open>cli_app()\<close> completes, 1 when an exception
  reaches the top level.
\<close>

definition exit_code :: "exn + 'w \<Rightarrow> int" where
  "exit_code r = (case r of Inl e \<Rightarrow> 1 | Inr w \<Rightarrow> 0)"

subsection \<open>The entry point on an argument vector\<close>

text \<open>
  The argument vectors over the program's own vocabulary: the option \<^verbatim>\<open>--no-splash\<close>,
  which the source declares as a parameter of the callback \<^verbatim>\<open>main\<close>, and the name of the
  one registered command, \<^verbatim>\<open>info\<close>, which declares no parameter.
\<close>

datatype token = Opt_no_splash | Cmd_info

fun token_text :: "token \<Rightarrow> string" where
  "token_text Opt_no_splash = ''--no-splash''"
| "token_text Cmd_info = ''info''"

text \<open>
  \<^verbatim>\<open>cli_app()\<close> on such a vector, with the exit status of the process. Typer reads the
  callback's options up to the first command name and runs the callback; what follows
  the name is the command's own argument vector. \<^verbatim>\<open>info\<close> accepts none, so any token
  after it is a usage error: status 2, after the callback has run and without the handler
  being called. The flag starts as \<open>False\<close>, its declared default.
\<close>

fun dispatch :: "'w collab \<Rightarrow> bool \<Rightarrow> token list \<Rightarrow> 'w \<Rightarrow> exn + (int \<times> 'w)" where
  "dispatch K no_splash [] w =
     (case main K \<lparr>invoked_subcommand = None\<rparr> no_splash w of
        Inl e \<Rightarrow> Inl e
      | Inr w' \<Rightarrow> Inr (0, w'))"
| "dispatch K no_splash (Opt_no_splash # argv) w = dispatch K True argv w"
| "dispatch K no_splash (Cmd_info # args) w =
     (case main K \<lparr>invoked_subcommand = Some (token_text Cmd_info)\<rparr> no_splash w of
        Inl e \<Rightarrow> Inl e
      | Inr w' \<Rightarrow>
          if args = [] then (case info K w' of Inl e \<Rightarrow> Inl e | Inr w'' \<Rightarrow> Inr (0, w''))
          else Inr (2, w'))"

definition cli_app_argv :: "'w collab \<Rightarrow> token list \<Rightarrow> 'w \<Rightarrow> exn + (int \<times> 'w)" where
  "cli_app_argv K argv = dispatch K False argv"

subsection \<open>A recording console\<close>

text \<open>
  The effect trace of a run: collaborators that never fail and append each call, with
  its argument, to the world.
\<close>

datatype effect = Clear | Print renderable | Sleep real

definition recording :: "effect list collab" where
  "recording = \<lparr>console_clear = (\<lambda>tr. Inr (tr @ [Clear])),
                 console_print = (\<lambda>x tr. Inr (tr @ [Print x])),
                 time_sleep = (\<lambda>d tr. Inr (tr @ [Sleep d]))\<rparr>"

text \<open>
  The same, with the check of CPython's \<^verbatim>\<open>time.sleep\<close>: a negative length raises
  \<^verbatim>\<open>ValueError\<close>.
\<close>

definition recording_strict :: "effect list collab" where
  "recording_strict = recording\<lparr>time_sleep :=
     (\<lambda>d tr. if d < 0 then Inl (Exn ''ValueError'') else Inr (tr @ [Sleep d]))\<rparr>"

text \<open>
  A world that is only a wall clock, in seconds: the console calls take no time and a
  sleep of \<open>d\<close> takes \<open>d\<close>.
\<close>

definition timed :: "real collab" where
  "timed = \<lparr>console_clear = (\<lambda>now. Inr now),
             console_print = (\<lambda>x now. Inr now),
             time_sleep = (\<lambda>d now. Inr (now + d))\<rparr>"

text \<open>The collaborator call that an effect of the trace stands for.\<close>

fun perform :: "'w collab \<Rightarrow> effect \<Rightarrow> 'w io" where
  "perform K Clear = console_clear K"
| "perform K (Print x) = console_print K x"
| "perform K (Sleep d) = time_sleep K d"

section \<open>Properties\<close>

subsection \<open>Blocks\<close>

lemma block_append:
  "block (xs @ ys) w = (case block xs w of Inl e \<Rightarrow> Inl e | Inr w' \<Rightarrow> block ys w')"
  by (induction xs arbitrary: w) (auto split: sum.splits)

lemma block_single: "block [s] = s"
  by (rule ext) (simp split: sum.splits)

lemma block_nested: "block [block xs, block ys] = block (xs @ ys)"
  by (rule ext) (simp add: block_append split: sum.splits)

lemma block_fails:
  "block ss w = Inl e \<Longrightarrow> \<exists>s \<in> set ss. \<exists>w'. s w' = Inl e"
  by (induction ss arbitrary: w) (auto split: sum.splits)

subsection \<open>Traces on the recording console\<close>

lemma show_splash_window_recording:
  "show_splash_window recording duration_arg tr =
     Inr (tr @ [Clear, Print (Aligned centered),
                Sleep (case duration_arg of None \<Rightarrow> 2 | Some d \<Rightarrow> d), Clear])"
  by (cases duration_arg) (simp_all add: show_splash_window_def recording_def)

lemma info_recording:
  "info recording tr = Inr (tr @ [Print (Markup ''[bold] Info command [/bold]'')])"
  by (simp add: info_def recording_def)

lemma main_recording:
  "main recording ctx no_splash tr =
     (if invoked_subcommand ctx = None \<or> \<not> no_splash
      then Inr (tr @ [Clear, Print (Aligned centered), Sleep 2, Clear])
      else Inr tr)"
  by (simp add: main_def show_splash_window_recording)

lemma cli_app_recording:
  "cli_app recording call tr =
     Inr (tr @ (if subcommand call = None \<or> \<not> no_splash_flag call
                then [Clear, Print (Aligned centered), Sleep 2, Clear] else [])
             @ (case subcommand call of None \<Rightarrow> []
                | Some c \<Rightarrow> [Print (Markup ''[bold] Info command [/bold]'')]))"
proof (cases "subcommand call")
  case None
  then show ?thesis by (simp add: cli_app_def main_recording)
next
  case (Some c)
  then show ?thesis
    by (cases c) (simp add: cli_app_def main_recording info_recording)
qed

subsection \<open>Functions as sequences of collaborator calls\<close>

lemma show_splash_window_perform:
  "show_splash_window K duration_arg =
     block (map (perform K)
       [Clear, Print (Aligned centered),
        Sleep (case duration_arg of None \<Rightarrow> 2 | Some d \<Rightarrow> d), Clear])"
  by (cases duration_arg) (simp_all add: show_splash_window_def)

lemma info_perform:
  "info K = block (map (perform K) [Print (Markup ''[bold] Info command [/bold]'')])"
  by (simp add: info_def)

subsection \<open>Argument vectors that Typer accepts\<close>

lemma dispatch_accepted:
  "dispatch K b [] w
     = map_sum id (Pair 0) (cli_app K \<lparr>subcommand = None, no_splash_flag = b\<rparr> w)"
  "dispatch K b [Cmd_info] w
     = map_sum id (Pair 0) (cli_app K \<lparr>subcommand = Some Info, no_splash_flag = b\<rparr> w)"
  by (simp_all add: cli_app_def split: sum.splits)

section \<open>The claims\<close>

subsection \<open>The decision to show the splash\<close>

text \<open>
  C1. For every invocation, the splash presenter runs if and only if no subcommand was
  requested or \<^verbatim>\<open>--no-splash\<close> was not supplied; it is skipped exactly when a subcommand
  was requested and the flag was supplied. On the recording console: the callback's
  outcome is the presenter's exactly under that condition, and it leaves the trace as it
  was exactly under the negation; the trace of the whole run continues with the splash's
  four effects exactly under that condition. For any collaborators, the callback is the
  presenter with its default argument, or nothing.
\<close>

theorem splash_runs_iff:
  "((main recording ctx no_splash tr = show_splash_window recording None tr)
      = (invoked_subcommand ctx = None \<or> \<not> no_splash))
   \<and> ((main recording ctx no_splash tr = Inr tr)
      = (invoked_subcommand ctx \<noteq> None \<and> no_splash))
   \<and> ((\<exists>t. cli_app recording call tr
             = Inr (tr @ [Clear, Print (Aligned centered), Sleep 2, Clear] @ t))
      = (subcommand call = None \<or> \<not> no_splash_flag call))
   \<and> main K ctx no_splash w =
       (if invoked_subcommand ctx = None \<or> \<not> no_splash
        then show_splash_window K None w else Inr w)"
proof -
  have "(\<exists>t. cli_app recording call tr
             = Inr (tr @ [Clear, Print (Aligned centered), Sleep 2, Clear] @ t))
      = (subcommand call = None \<or> \<not> no_splash_flag call)"
    by (cases "subcommand call") (simp_all add: cli_app_recording)
  then show ?thesis
    by (simp add: main_recording show_splash_window_recording main_def)
qed

text \<open>The four combinations of subcommand and flag.\<close>

theorem splash_runs_iff_witness:
  "main recording \<lparr>invoked_subcommand = Some ''info''\<rparr> True [] = Inr []
   \<and> main recording \<lparr>invoked_subcommand = Some ''info''\<rparr> False []
       = show_splash_window recording None []
   \<and> main recording \<lparr>invoked_subcommand = None\<rparr> True []
       = show_splash_window recording None []
   \<and> main recording \<lparr>invoked_subcommand = None\<rparr> False []
       = show_splash_window recording None []"
proof -
  note r = splash_runs_iff
    [where K = recording and tr = "[]" and w = "[]"
       and call = "\<lparr>subcommand = None, no_splash_flag = False\<rparr>"]
  have "main recording \<lparr>invoked_subcommand = Some ''info''\<rparr> True [] = Inr []"
    using r [of "\<lparr>invoked_subcommand = Some ''info''\<rparr>" True] by simp
  moreover have "main recording \<lparr>invoked_subcommand = Some ''info''\<rparr> False []
       = show_splash_window recording None []"
    using r [of "\<lparr>invoked_subcommand = Some ''info''\<rparr>" False] by simp
  moreover have "main recording \<lparr>invoked_subcommand = None\<rparr> True []
       = show_splash_window recording None []"
    using r [of "\<lparr>invoked_subcommand = None\<rparr>" True] by simp
  moreover have "main recording \<lparr>invoked_subcommand = None\<rparr> False []
       = show_splash_window recording None []"
    using r [of "\<lparr>invoked_subcommand = None\<rparr>" False] by simp
  ultimately show ?thesis by simp
qed

text \<open>
  C2. An invocation with \<^verbatim>\<open>--no-splash\<close> and no subcommand still performs the splash
  presentation and exits with code 0: its trace is the splash's four effects and nothing
  else, and for any collaborators the run is the presenter with its default argument.
\<close>

theorem no_splash_alone_still_splashes:
  "cli_app recording \<lparr>subcommand = None, no_splash_flag = True\<rparr> tr
     = Inr (tr @ [Clear, Print (Aligned centered), Sleep 2, Clear])
   \<and> exit_code (cli_app recording \<lparr>subcommand = None, no_splash_flag = True\<rparr> tr) = 0
   \<and> cli_app K \<lparr>subcommand = None, no_splash_flag = True\<rparr> = show_splash_window K None"
proof -
  have "cli_app K \<lparr>subcommand = None, no_splash_flag = True\<rparr> = show_splash_window K None"
    by (simp add: cli_app_def main_def show_splash_window_def block_nested)
  then show ?thesis
    by (simp add: cli_app_recording exit_code_def)
qed

text \<open>
  C3, as amended. An invocation that gives \<^verbatim>\<open>--no-splash\<close> before the subcommand
  \<^verbatim>\<open>info\<close> skips the splash entirely, prints the info line, whose text contains
  \<^verbatim>\<open>Info command\<close>, and exits with code 0: the trace is that one print, for any
  collaborators the run is the handler alone, and the callback has received the
  subcommand and the flag.
\<close>

theorem no_splash_before_info_skips:
  "cli_app_argv recording [Opt_no_splash, Cmd_info] tr
     = Inr (0, tr @ [Print (Markup ''[bold] Info command [/bold]'')])
   \<and> sublist ''Info command'' ''[bold] Info command [/bold]''
   \<and> cli_app_argv K [Opt_no_splash, Cmd_info] w
     = (case info K w of Inl e \<Rightarrow> Inl e | Inr w' \<Rightarrow> Inr (0, w'))
   \<and> cli_app recording \<lparr>subcommand = Some Info, no_splash_flag = True\<rparr> tr
     = Inr (tr @ [Print (Markup ''[bold] Info command [/bold]'')])
   \<and> exit_code (cli_app recording \<lparr>subcommand = Some Info, no_splash_flag = True\<rparr> tr) = 0
   \<and> cli_app K \<lparr>subcommand = Some Info, no_splash_flag = True\<rparr> = info K"
proof -
  have s: "sublist ''Info command'' ''[bold] Info command [/bold]''"
    by code_simp
  have "block [block [], info K] = info K"
    using block_nested [of "[]" "[console_print K (Markup ''[bold] Info command [/bold]'')]"]
    by (simp add: info_def)
  then have c: "cli_app K \<lparr>subcommand = Some Info, no_splash_flag = True\<rparr> = info K"
    by (simp add: cli_app_def main_def)
  have a: "cli_app_argv K [Opt_no_splash, Cmd_info] w
     = (case info K w of Inl e \<Rightarrow> Inl e | Inr w' \<Rightarrow> Inr (0, w'))"
    by (simp add: cli_app_argv_def main_def)
  have r: "cli_app_argv recording [Opt_no_splash, Cmd_info] tr
     = Inr (0, tr @ [Print (Markup ''[bold] Info command [/bold]'')])"
    by (simp add: cli_app_argv_def main_recording info_recording)
  from s c a r show ?thesis
    by (simp add: cli_app_recording exit_code_def)
qed

text \<open>
  C3 as stated fails when the flag follows the subcommand, \<^verbatim>\<open>info --no-splash\<close>: the
  option is the callback's, which has then run without it, so the splash is shown; the
  token is left to \<^verbatim>\<open>info\<close>, which has no such option, so the info line is not printed
  and the status is 2.
\<close>

theorem info_then_no_splash_counterexample:
  "cli_app_argv recording [Cmd_info, Opt_no_splash] []
     = Inr (2, [Clear, Print (Aligned centered), Sleep 2, Clear])
   \<and> cli_app_argv recording [Cmd_info, Opt_no_splash] []
     \<noteq> Inr (0, [Print (Markup ''[bold] Info command [/bold]'')])"
  by (simp add: cli_app_argv_def main_recording)

subsection \<open>The splash presenter\<close>

text \<open>
  C4. Each call of the splash presenter performs, in this order: clear the display;
  print the title and author lines inside a panel (the bordered container) with the
  dimmed caption \<^verbatim>\<open>Loading ...\<close> as its subtitle; sleep for the given duration; clear the
  display again. The panel is handed over aligned to the centre horizontally and with
  \<^verbatim>\<open>vertical="middle"\<close>, but with no height, neither the \<^verbatim>\<open>Align\<close>'s own nor one given
  to \<^verbatim>\<open>console.print\<close>: Rich then puts no blank line above it, whatever the panel's
  height, where a height of 24 lines would put 8 above this panel of 7 lines. So the
  panel is centred horizontally and not, as the claim has it, vertically.
\<close>

theorem splash_vertical_not_applied:
  "show_splash_window recording duration_arg tr
     = Inr (tr @ [Clear, Print (Aligned centered),
                  Sleep (case duration_arg of None \<Rightarrow> 2 | Some d \<Rightarrow> d), Clear])
   \<and> show_splash_window K duration_arg
     = block [console_clear K, console_print K (Aligned centered),
              time_sleep K (case duration_arg of None \<Rightarrow> 2 | Some d \<Rightarrow> d),
              console_clear K]
   \<and> align centered = ''center'' \<and> vertical centered = Some ''middle''
   \<and> align_height centered = None
   \<and> top_space centered None h = 0
   \<and> top_space (centered\<lparr>align_height := Some 24\<rparr>) None 7 = 8
   \<and> panel_renderable (align_renderable centered)
     = [(''\<newline> CLI Buddy v0.1.0'', ''bold white''),
        (''\<newline> Author <Iurii Golubnichenko aka Ghost Rider>'', ''dim white'')]
   \<and> border_style (align_renderable centered) = ''bright_blue''
   \<and> subtitle (align_renderable centered) = ''[dim]Loading ... [/dim]''"
proof -
  have "show_splash_window K duration_arg
     = block [console_clear K, console_print K (Aligned centered),
              time_sleep K (case duration_arg of None \<Rightarrow> 2 | Some d \<Rightarrow> d),
              console_clear K]"
    by (cases duration_arg) (simp_all add: show_splash_window_def)
  moreover have "align centered = ''center'' \<and> vertical centered = Some ''middle''
   \<and> align_height centered = None
   \<and> panel_renderable (align_renderable centered)
     = [(''\<newline> CLI Buddy v0.1.0'', ''bold white''),
        (''\<newline> Author <Iurii Golubnichenko aka Ghost Rider>'', ''dim white'')]
   \<and> border_style (align_renderable centered) = ''bright_blue''
   \<and> subtitle (align_renderable centered) = ''[dim]Loading ... [/dim]''"
    by (simp add: centered_def Align_center_def panel_def splash_title_def
        append_text_def Text_new_def)
  moreover have "top_space centered None h = 0"
    by (simp add: top_space_def centered_def Align_center_def)
  moreover have "top_space (centered\<lparr>align_height := Some 24\<rparr>) None 7 = 8"
    by (simp add: top_space_def centered_def Align_center_def)
  ultimately show ?thesis
    using show_splash_window_recording [of duration_arg tr] by simp
qed

text \<open>
  C5. The splash duration defaults to 2.0 seconds and the dispatcher never overrides it:
  the presenter called without an argument sleeps for 2, every sleep in the trace of a
  run of the entry point is a sleep of 2, and there is one whenever the splash is shown.
\<close>

theorem splash_duration_default:
  "show_splash_window recording None tr
     = Inr (tr @ [Clear, Print (Aligned centered), Sleep 2, Clear])
   \<and> (\<exists>t. cli_app recording call tr = Inr (tr @ t)
          \<and> (\<forall>d. Sleep d \<in> set t \<longrightarrow> d = 2)
          \<and> (subcommand call = None \<or> \<not> no_splash_flag call \<longrightarrow> Sleep 2 \<in> set t))"
  by (simp add: show_splash_window_recording cli_app_recording split: option.splits)

text \<open>The run of \<^verbatim>\<open>info\<close> without the flag: the splash is shown and sleeps for 2.\<close>

theorem splash_duration_default_witness:
  "\<exists>t. cli_app recording \<lparr>subcommand = Some Info, no_splash_flag = False\<rparr> [] = Inr t
       \<and> Sleep 2 \<in> set t"
  using splash_duration_default
    [of "[]" "\<lparr>subcommand = Some Info, no_splash_flag = False\<rparr>"]
  by auto

text \<open>
  C6. For every duration \<open>d > 0\<close>, a call of the splash presenter with duration \<open>d\<close>
  blocks for at least \<open>d\<close> seconds of wall-clock time before it returns. The clock is
  read off the world; \<^verbatim>\<open>time.sleep(d)\<close> returns no earlier than \<open>d\<close> after it was called
  and no console call sets the clock back. Then the clock at the presenter's return is
  at least \<open>d\<close> after the clock at its call.
\<close>

theorem splash_blocks_at_least_duration:
  assumes "0 < d"
    and sleep: "\<forall>v v'. time_sleep K d v = Inr v' \<longrightarrow> clock v + d \<le> clock v'"
    and clear: "\<forall>v v'. console_clear K v = Inr v' \<longrightarrow> clock v \<le> clock v'"
    and print: "\<forall>x v v'. console_print K x v = Inr v' \<longrightarrow> clock v \<le> clock v'"
    and returns: "show_splash_window K (Some d) w = Inr w'"
  shows "clock w + d \<le> (clock w' :: real)"
proof -
  from returns obtain w1 w2 w3 where
    1: "console_clear K w = Inr w1" and
    2: "console_print K (Aligned centered) w1 = Inr w2" and
    3: "time_sleep K d w2 = Inr w3" and
    4: "console_clear K w3 = Inr w'"
    by (auto simp add: show_splash_window_def split: sum.splits)
  have "clock w \<le> clock w1" using clear 1 by blast
  moreover have "clock w1 \<le> clock w2" using print 2 by blast
  moreover have "clock w2 + d \<le> clock w3" using sleep 3 by blast
  moreover have "clock w3 \<le> clock w'" using clear 4 by blast
  ultimately show ?thesis by linarith
qed

text \<open>
  On the world that is only a clock: called at 10 with a duration of 2, the presenter
  returns at 12.
\<close>

theorem splash_blocks_at_least_duration_witness:
  "(0::real) < 2 \<and> show_splash_window timed (Some 2) 10 = Inr 12 \<and> (10::real) + 2 \<le> 12"
proof -
  have r: "show_splash_window timed (Some 2) 10 = Inr 12"
    by (simp add: show_splash_window_def timed_def)
  have "(10::real) + 2 \<le> 12"
    using splash_blocks_at_least_duration [of 2 timed "\<lambda>now. now" 10 12] r
    by (simp add: timed_def)
  with r show ?thesis by simp
qed

text \<open>
  C7. What the splash presenter prints contains the literal substrings
  \<^verbatim>\<open>CLI Buddy v0.1.0\<close> and \<^verbatim>\<open>Loading\<close> and is enclosed in a border: the one value it
  hands to \<^verbatim>\<open>console.print\<close> is a panel with the border style \<^verbatim>\<open>bright_blue\<close>, a piece
  of whose text contains the first substring and whose subtitle contains the second.
\<close>

theorem splash_output_content:
  "\<exists>p. show_splash_window recording duration_arg tr
          = Inr (tr @ [Clear, Print (Aligned p),
                       Sleep (case duration_arg of None \<Rightarrow> 2 | Some d \<Rightarrow> d), Clear])
      \<and> list_ex (\<lambda>piece. sublist ''CLI Buddy v0.1.0'' (fst piece))
           (panel_renderable (align_renderable p))
      \<and> sublist ''Loading'' (subtitle (align_renderable p))
      \<and> border_style (align_renderable p) = ''bright_blue''"
proof -
  have "sublist ''CLI Buddy v0.1.0'' ''\<newline> CLI Buddy v0.1.0''"
    by code_simp
  moreover have "sublist ''Loading'' ''[dim]Loading ... [/dim]''"
    by code_simp
  ultimately have
    "list_ex (\<lambda>piece. sublist ''CLI Buddy v0.1.0'' (fst piece))
       (panel_renderable (align_renderable centered))
     \<and> sublist ''Loading'' (subtitle (align_renderable centered))
     \<and> border_style (align_renderable centered) = ''bright_blue''"
    by (simp add: centered_def Align_center_def panel_def splash_title_def
        append_text_def Text_new_def)
  then show ?thesis
    using show_splash_window_recording [of duration_arg tr] by blast
qed

text \<open>
  C8. The splash presenter defines no error condition of its own and does not enforce
  \<open>duration > 0\<close>: for every duration, also a non-positive one, it passes the value to
  \<^verbatim>\<open>time.sleep\<close> unchecked; when it fails, the exception is one that a collaborator call
  raised; and when its collaborators' calls never fail, it returns.
\<close>

theorem presenter_no_validation:
  "show_splash_window recording (Some d) tr
     = Inr (tr @ [Clear, Print (Aligned centered), Sleep d, Clear])
   \<and> (show_splash_window K (Some d) w = Inl e \<longrightarrow>
        (\<exists>w'. console_clear K w' = Inl e
             \<or> console_print K (Aligned centered) w' = Inl e
             \<or> time_sleep K d w' = Inl e))
   \<and> ((\<forall>v. \<exists>v'. console_clear K v = Inr v')
        \<and> (\<forall>v. \<exists>v'. console_print K (Aligned centered) v = Inr v')
        \<and> (\<forall>v. \<exists>v'. time_sleep K d v = Inr v')
      \<longrightarrow> (\<exists>w'. show_splash_window K (Some d) w = Inr w'))"
proof (intro conjI impI)
  show "show_splash_window recording (Some d) tr
     = Inr (tr @ [Clear, Print (Aligned centered), Sleep d, Clear])"
    by (simp add: show_splash_window_recording)
next
  assume "show_splash_window K (Some d) w = Inl e"
  then have "\<exists>s \<in> set [console_clear K, console_print K (Aligned centered),
                         time_sleep K d, console_clear K]. \<exists>w'. s w' = Inl e"
    unfolding show_splash_window_def by (simp only: Let_def option.case block_fails)
  then show "\<exists>w'. console_clear K w' = Inl e
             \<or> console_print K (Aligned centered) w' = Inl e
             \<or> time_sleep K d w' = Inl e"
    by auto
next
  assume ok: "(\<forall>v. \<exists>v'. console_clear K v = Inr v')
        \<and> (\<forall>v. \<exists>v'. console_print K (Aligned centered) v = Inr v')
        \<and> (\<forall>v. \<exists>v'. time_sleep K d v = Inr v')"
  obtain w1 where 1: "console_clear K w = Inr w1" using ok by blast
  obtain w2 where 2: "console_print K (Aligned centered) w1 = Inr w2" using ok by blast
  obtain w3 where 3: "time_sleep K d w2 = Inr w3" using ok by blast
  obtain w4 where 4: "console_clear K w3 = Inr w4" using ok by blast
  show "\<exists>w'. show_splash_window K (Some d) w = Inr w'"
    by (simp add: show_splash_window_def 1 2 3 4)
qed

text \<open>
  A duration of \<open>-1\<close>: the presenter passes it on; with the sleep that rejects negative
  lengths the failure is the sleep's, and with collaborators that never fail it returns.
\<close>

theorem presenter_no_validation_witness:
  "show_splash_window recording (Some (- 1)) []
     = Inr [Clear, Print (Aligned centered), Sleep (- 1), Clear]
   \<and> show_splash_window recording_strict (Some (- 1)) [] = Inl (Exn ''ValueError'')
   \<and> (\<exists>w'. console_clear recording_strict w' = Inl (Exn ''ValueError'')
          \<or> console_print recording_strict (Aligned centered) w' = Inl (Exn ''ValueError'')
          \<or> time_sleep recording_strict (- 1) w' = Inl (Exn ''ValueError''))
   \<and> (\<forall>v. \<exists>v'. console_clear recording v = Inr v')
   \<and> (\<forall>v. \<exists>v'. console_print recording (Aligned centered) v = Inr v')
   \<and> (\<forall>v. \<exists>v'. time_sleep recording (- 1) v = Inr v')
   \<and> (\<exists>w'. show_splash_window recording (Some (- 1)) [] = Inr w')"
proof -
  have f: "show_splash_window recording_strict (Some (- 1)) [] = Inl (Exn ''ValueError'')"
    by (simp add: show_splash_window_def recording_strict_def recording_def)
  have g: "(\<forall>v. \<exists>v'. console_clear recording v = Inr v')
     \<and> (\<forall>v. \<exists>v'. console_print recording (Aligned centered) v = Inr v')
     \<and> (\<forall>v. \<exists>v'. time_sleep recording (- 1) v = Inr v')"
    by (simp add: recording_def)
  show ?thesis
    using f g
      presenter_no_validation [of "- 1" "[]" recording_strict "[]" "Exn ''ValueError''"]
      presenter_no_validation [of "- 1" "[]" recording "[]" "Exn ''ValueError''"]
    by simp
qed

subsection \<open>The run as a whole\<close>

text \<open>
  C9. The program is deterministic: an invocation fixes one sequence of effects. On the
  recording console every run of the invocation appends that sequence, whatever the
  trace before it; and for any collaborators and any world the run is the block of the
  collaborator calls of that sequence, so nothing but the invocation chooses the calls.
\<close>

theorem entry_point_deterministic:
  "\<exists>t. (\<forall>tr. cli_app recording call tr = Inr (tr @ t))
      \<and> (\<forall>K. cli_app K call = block (map (perform K) t))"
proof -
  let ?splash = "[Clear, Print (Aligned centered), Sleep 2, Clear]"
  let ?line = "[Print (Markup ''[bold] Info command [/bold]'')]"
  let ?t = "(if subcommand call = None \<or> \<not> no_splash_flag call then ?splash else [])
            @ (case subcommand call of None \<Rightarrow> [] | Some c \<Rightarrow> ?line)"
  have "cli_app recording call tr = Inr (tr @ ?t)" for tr
    by (simp add: cli_app_recording)
  moreover have "cli_app K call = block (map (perform K) ?t)" for K :: "'a collab"
  proof -
    have m: "main K ctx b = block (map (perform K)
        (if invoked_subcommand ctx = None \<or> \<not> b then ?splash else []))" for ctx b
      by (simp add: main_def show_splash_window_perform)
    have h: "(case subcommand call of None \<Rightarrow> block [] | Some c \<Rightarrow> handler K c)
       = block (map (perform K) (case subcommand call of None \<Rightarrow> [] | Some c \<Rightarrow> ?line))"
    proof (cases "subcommand call")
      case None
      then show ?thesis by simp
    next
      case (Some c)
      then show ?thesis by (cases c) (simp add: info_perform)
    qed
    show ?thesis
      unfolding cli_app_def m h block_nested map_append [symmetric]
      by (simp split: option.splits)
  qed
  ultimately show ?thesis by blast
qed

text \<open>
  C10. The handler of \<^verbatim>\<open>info\<close> only prints one styled line: it is the single call of
  \<^verbatim>\<open>console.print\<close>, it never clears the display and never sleeps; so when the splash is
  skipped (a subcommand was named and the flag given) the trace of the run has no clear
  and no sleep.
\<close>

theorem info_only_prints:
  "info recording tr = Inr (tr @ [Print (Markup ''[bold] Info command [/bold]'')])
   \<and> info K = console_print K (Markup ''[bold] Info command [/bold]'')
   \<and> (subcommand call \<noteq> None \<and> no_splash_flag call \<longrightarrow>
        (\<exists>t. cli_app recording call tr = Inr (tr @ t)
             \<and> Clear \<notin> set t \<and> (\<forall>d. Sleep d \<notin> set t)))"
proof (intro conjI impI)
  show "info recording tr = Inr (tr @ [Print (Markup ''[bold] Info command [/bold]'')])"
    by (rule info_recording)
next
  show "info K = console_print K (Markup ''[bold] Info command [/bold]'')"
    by (simp only: info_def block_single)
next
  assume "subcommand call \<noteq> None \<and> no_splash_flag call"
  then show "\<exists>t. cli_app recording call tr = Inr (tr @ t)
             \<and> Clear \<notin> set t \<and> (\<forall>d. Sleep d \<notin> set t)"
    by (auto simp add: cli_app_recording)
qed

text \<open>The run of \<^verbatim>\<open>info\<close> with the flag.\<close>

theorem info_only_prints_witness:
  "\<exists>t. cli_app recording \<lparr>subcommand = Some Info, no_splash_flag = True\<rparr> [] = Inr t
       \<and> Clear \<notin> set t \<and> (\<forall>d. Sleep d \<notin> set t)"
  using info_only_prints
    [of "[]" recording "\<lparr>subcommand = Some Info, no_splash_flag = True\<rparr>"]
  by auto

end
